theory Spec2Isabelle
  imports Main "HOL-Library.Sublist"
begin

section \<open>Decoded claim values\<close>

text \<open>
  The payload that \<^verbatim>\<open>jwt.decode\<close> returns is a Python dict from claim names to
  loosely typed JSON values. The validator inspects the run-time type of claims
  (\<^verbatim>\<open>isinstance(x, list)\<close>, \<^verbatim>\<open>isinstance(s, str)\<close>), so the values keep their tag.
\<close>

datatype json =
    JNull
  | JBool bool
  | JNum int
  | JStr (un_JStr: string)
  | JList "json list"
  | JObj "(string \<times> json) list"

type_synonym payload = "string \<rightharpoonup> json"

text \<open>\<^verbatim>\<open>d.get(key, default)\<close> of a Python dict.\<close>

definition dict_get :: "('k \<rightharpoonup> 'v) \<Rightarrow> 'k \<Rightarrow> 'v \<Rightarrow> 'v" where
  "dict_get d k dflt = (case d k of None \<Rightarrow> dflt | Some v \<Rightarrow> v)"

section \<open>Configuration (src/config.py)\<close>

record Settings =
  host :: string
  port :: int
  log_level :: string
  jwt_secret_key :: string
  jwt_algorithm :: string

definition default_settings :: Settings where
  "default_settings =
     \<lparr>host = ''0.0.0.0'', port = 8080, log_level = ''info'',
      jwt_secret_key = ''dev-secret-change-me'', jwt_algorithm = ''HS256''\<rparr>"

section \<open>Token validation (src/auth.py)\<close>

subsection \<open>Exceptions\<close>

text \<open>
  What \<^verbatim>\<open>jwt.decode\<close> can raise. \<^verbatim>\<open>ExpiredSignatureError\<close> is caught first; every
  other subclass of \<^verbatim>\<open>InvalidTokenError\<close> (bad signature, malformed structure, wrong
  algorithm, missing required claim) is caught by the second handler and carries the
  text \<^verbatim>\<open>str(e)\<close>. An exception outside that hierarchy is not caught by
  \<^verbatim>\<open>validate_token\<close>.
\<close>

datatype jwt_exception =
    ExpiredSignatureError
  | InvalidTokenError string
  | OtherJwtException string

text \<open>
  The exceptions that leave this module: \<^verbatim>\<open>AuthError(message, status_code)\<close>,
  Python's \<^verbatim>\<open>PermissionError(message)\<close>, and anything else that passes through
  unhandled.
\<close>

datatype exn =
    AuthError string int
  | PermissionError string
  | OtherException string

text \<open>\<^verbatim>\<open>AuthError(message)\<close> with the default \<^verbatim>\<open>status_code = 401\<close>.\<close>

definition auth_error :: "string \<Rightarrow> exn" where
  "auth_error m = AuthError m 401"

fun is_PermissionError :: "exn \<Rightarrow> bool" where
  "is_PermissionError (PermissionError m) = True"
| "is_PermissionError (AuthError m c) = False"
| "is_PermissionError (OtherException m) = False"

subsection \<open>TokenInfo\<close>

text \<open>
  The dataclass annotates \<^verbatim>\<open>subject: str\<close>, but Python does not enforce annotations
  and \<^verbatim>\<open>validate_token\<close> stores \<^verbatim>\<open>payload.get("sub", "")\<close> as it is, so the field
  holds a JSON value. \<^verbatim>\<open>scopes\<close> is stored only after every entry has been checked
  to be a string, so it is a list of strings.
\<close>

record TokenInfo =
  subject :: json
  scopes :: "string list"

subsection \<open>String helpers\<close>

text \<open>
  \<^verbatim>\<open>s.split(" ", 1)\<close>: cut at the first space character, at most once. The result
  has one element when there is no space and two otherwise; the second keeps every
  later space.
\<close>

definition split1 :: "string \<Rightarrow> string list" where
  "split1 s =
     (case dropWhile (\<lambda>c. c \<noteq> CHR '' '') s of
        [] \<Rightarrow> [s]
      | sp # rest \<Rightarrow> [takeWhile (\<lambda>c. c \<noteq> CHR '' '') s, rest])"

text \<open>
  \<^verbatim>\<open>str.lower()\<close> on a header value. The transport delivers header text as Latin-1,
  one character per byte: the letters A-Z and the accented capitals
  0xC0-0xDE (without the multiplication sign 0xD7) move up by 32.
\<close>

definition lower_char :: "char \<Rightarrow> char" where
  "lower_char c =
     (let n = (of_char c :: nat) in
      if (65 \<le> n \<and> n \<le> 90) \<or> (192 \<le> n \<and> n \<le> 222 \<and> n \<noteq> 215)
      then char_of (n + 32) else c)"

definition lower :: "string \<Rightarrow> string" where
  "lower s = map lower_char s"

subsection \<open>The decoder\<close>

text \<open>
  \<^verbatim>\<open>jwt.decode(token, key, algorithms=[...], options={"require": [...]})\<close> belongs to
  the PyJWT library and reads the clock; it is a parameter of the model:
  token, key, accepted algorithms, required claims and the evaluation time
  give either an exception or the payload.
\<close>

type_synonym jwt_decode =
  "string \<Rightarrow> string \<Rightarrow> string list \<Rightarrow> string list \<Rightarrow> int \<Rightarrow> jwt_exception + payload"

subsection \<open>validate_token\<close>

definition validate_token ::
  "jwt_decode \<Rightarrow> Settings \<Rightarrow> int \<Rightarrow> string option \<Rightarrow> exn + TokenInfo" where
  "validate_token decode settings now authorization_header =
     (case authorization_header of
        None \<Rightarrow> Inl (auth_error ''Missing Authorization header'')
      | Some h \<Rightarrow>
          if h = [] then Inl (auth_error ''Missing Authorization header'')
          else
            (let parts = split1 h in
             if length parts \<noteq> 2 \<or> lower (parts ! 0) \<noteq> ''bearer''
             then Inl (auth_error
               (''Invalid Authorization header format, expected '' @
                [CHR 0x27] @ ''Bearer <token>'' @ [CHR 0x27]))
             else
               (let token = parts ! 1 in
                case decode token (jwt_secret_key settings) [jwt_algorithm settings]
                       [''exp'', ''sub''] now of
                  Inl ExpiredSignatureError \<Rightarrow> Inl (auth_error ''Token has expired'')
                | Inl (InvalidTokenError e) \<Rightarrow> Inl (auth_error (''Invalid token: '' @ e))
                | Inl (OtherJwtException e) \<Rightarrow> Inl (OtherException e)
                | Inr payload \<Rightarrow>
                    (let subject = dict_get payload ''sub'' (JStr []);
                         scopes_claim = dict_get payload ''scope'' (JList [])
                     in case scopes_claim of
                          JList entries \<Rightarrow>
                            if \<not> list_all is_JStr entries
                            then Inl (auth_error
                              ''Invalid scope claim: all entries must be strings'')
                            else Inr \<lparr>subject = subject, scopes = map un_JStr entries\<rparr>
                        | _ \<Rightarrow> Inl (auth_error ''Invalid scope claim: must be a list'')))))"

section \<open>Scope registry (src/tools.py)\<close>

text \<open>
  A registry maps a tool name to the scope it requires; \<^verbatim>\<open>TOOL_SCOPE_MAP\<close> is the
  one the module defines. The hooks below take the registry as an argument, so that
  statements about any registry can be made; the server runs them with
  \<^verbatim>\<open>TOOL_SCOPE_MAP\<close>.
\<close>

type_synonym registry = "string \<rightharpoonup> string"

definition TOOL_SCOPE_MAP :: registry where
  "TOOL_SCOPE_MAP =
     [''get_public_info'' \<mapsto> ''public:read'',
      ''get_confidential_info'' \<mapsto> ''confidential:read'']"

section \<open>Authentication and authorization middleware (src/server.py)\<close>

subsection \<open>Objects of the protocol runtime\<close>

text \<open>
  The hooks read only the \<^verbatim>\<open>name\<close> attribute of a tool and of the call request, so
  both are records that extend a record with that one field.
\<close>

record Named =
  name :: string

record Tool = Named +
  description :: string

record CallToolRequestParams = Named +
  arguments :: "(string \<times> json) list"

record 'm MiddlewareContext =
  message :: 'm

text \<open>
  The HTTP request that \<^verbatim>\<open>get_http_request()\<close> finds in the ambient context, with
  header names in lower case; \<^verbatim>\<open>None\<close> stands for the \<^verbatim>\<open>RuntimeError\<close> raised when
  there is no HTTP request.
\<close>

record Request =
  headers :: "(string \<times> string) list"

subsection \<open>The logger\<close>

text \<open>
  The state that a hook threads through: the records handed to the logger, in order.
  A downstream stage may carry more state in the extension of the record.
\<close>

record LogRecord =
  levelname :: string
  msg :: string
  auth_data :: "(string \<times> json) list"

record world =
  logged :: "LogRecord list"

definition logger_info ::
  "string \<Rightarrow> (string \<times> json) list \<Rightarrow> 'a world_scheme \<Rightarrow> 'a world_scheme" where
  "logger_info m extra w =
     w\<lparr>logged := logged w @ [\<lparr>levelname = ''INFO'', msg = m, auth_data = extra\<rparr>]\<rparr>"

definition logger_warning ::
  "string \<Rightarrow> (string \<times> json) list \<Rightarrow> 'a world_scheme \<Rightarrow> 'a world_scheme" where
  "logger_warning m extra w =
     w\<lparr>logged := logged w @ [\<lparr>levelname = ''WARNING'', msg = m, auth_data = extra\<rparr>]\<rparr>"

subsection \<open>AuthMiddleware\<close>

text \<open>\<^verbatim>\<open>AuthMiddleware._get_auth_header\<close>.\<close>

definition get_auth_header :: "Request option \<Rightarrow> string option" where
  "get_auth_header http =
     (case http of
        None \<Rightarrow> None
      | Some request \<Rightarrow> map_of (headers request) ''authorization'')"

text \<open>
  \<^verbatim>\<open>AuthMiddleware._authenticate\<close>. Only an \<^verbatim>\<open>AuthError\<close> is caught, logged and
  raised again; any other exception passes through without a log record.
\<close>

definition authenticate ::
  "jwt_decode \<Rightarrow> Settings \<Rightarrow> int \<Rightarrow> Request option \<Rightarrow> string \<Rightarrow> 'a world_scheme \<Rightarrow>
     (exn + TokenInfo) \<times> 'a world_scheme" where
  "authenticate decode settings now http request_id w =
     (let auth_header = get_auth_header http in
      case validate_token decode settings now auth_header of
        Inr token_info \<Rightarrow>
          (Inr token_info,
           logger_info ''Authentication successful''
             [(''request_id'', JStr request_id),
              (''subject'', subject token_info),
              (''scopes'', JList (map JStr (scopes token_info))),
              (''decision'', JStr ''authenticated'')] w)
      | Inl (AuthError m c) \<Rightarrow>
          (Inl (AuthError m c),
           logger_warning ''Authentication failed''
             [(''request_id'', JStr request_id),
              (''decision'', JStr ''rejected''),
              (''reason'', JStr ''authentication_failed'')] w)
      | Inl e \<Rightarrow> (Inl e, w))"

text \<open>
  The loop of \<^verbatim>\<open>on_list_tools\<close>: \<^verbatim>\<open>required_scope = TOOL_SCOPE_MAP.get(tool.name)\<close>,
  and the tool is appended when \<^verbatim>\<open>required_scope and required_scope in token_info.scopes\<close>.
  The first conjunct is Python truthiness: it fails for \<^verbatim>\<open>None\<close> and for the empty
  string.
\<close>

fun authorized_loop ::
  "registry \<Rightarrow> TokenInfo \<Rightarrow> 't Named_scheme list \<Rightarrow> 't Named_scheme list \<Rightarrow>
     't Named_scheme list" where
  "authorized_loop scope_map token_info [] authorized_tools = authorized_tools"
| "authorized_loop scope_map token_info (tool # rest) authorized_tools =
     (case scope_map (name tool) of
        None \<Rightarrow> authorized_loop scope_map token_info rest authorized_tools
      | Some required_scope \<Rightarrow>
          if required_scope \<noteq> [] \<and> required_scope \<in> set (scopes token_info)
          then authorized_loop scope_map token_info rest (authorized_tools @ [tool])
          else authorized_loop scope_map token_info rest authorized_tools)"

text \<open>
  \<^verbatim>\<open>AuthMiddleware.on_list_tools\<close>. \<^verbatim>\<open>request_id\<close> is the fresh
  \<^verbatim>\<open>str(uuid.uuid4())[:8]\<close>; \<^verbatim>\<open>call_next\<close> is the next stage, which may raise and
  may change the state.
\<close>

definition on_list_tools ::
  "jwt_decode \<Rightarrow> Settings \<Rightarrow> int \<Rightarrow> registry \<Rightarrow> Request option \<Rightarrow> string \<Rightarrow> 'c \<Rightarrow>
     ('c \<Rightarrow> 'a world_scheme \<Rightarrow> (exn + 't Named_scheme list) \<times> 'a world_scheme) \<Rightarrow>
     'a world_scheme \<Rightarrow> (exn + 't Named_scheme list) \<times> 'a world_scheme" where
  "on_list_tools decode settings now scope_map http request_id context call_next w =
     (case authenticate decode settings now http request_id w of
        (Inl e, w1) \<Rightarrow> (Inl e, w1)
      | (Inr token_info, w1) \<Rightarrow>
          (case call_next context w1 of
             (Inl e, w2) \<Rightarrow> (Inl e, w2)
           | (Inr all_tools, w2) \<Rightarrow>
               (let authorized_tools = authorized_loop scope_map token_info all_tools []
                in (Inr authorized_tools,
                    logger_info ''Tool list filtered by scope''
                      [(''request_id'', JStr request_id),
                       (''subject'', subject token_info),
                       (''scopes'', JList (map JStr (scopes token_info))),
                       (''total_tools'', JNum (int (length all_tools))),
                       (''authorized_tools'', JList (map (\<lambda>t. JStr (name t)) authorized_tools)),
                       (''decision'', JStr ''filtered'')] w2))))"

text \<open>A name between apostrophes, as the f-strings of the denial messages write it.\<close>

definition quoted :: "string \<Rightarrow> string" where
  "quoted s = [CHR 0x27] @ s @ [CHR 0x27]"

text \<open>\<^verbatim>\<open>AuthMiddleware.on_call_tool\<close>.\<close>

definition on_call_tool ::
  "jwt_decode \<Rightarrow> Settings \<Rightarrow> int \<Rightarrow> registry \<Rightarrow> Request option \<Rightarrow> string \<Rightarrow>
     'm Named_scheme MiddlewareContext \<Rightarrow>
     ('m Named_scheme MiddlewareContext \<Rightarrow> 'a world_scheme \<Rightarrow> (exn + 'r) \<times> 'a world_scheme) \<Rightarrow>
     'a world_scheme \<Rightarrow> (exn + 'r) \<times> 'a world_scheme" where
  "on_call_tool decode settings now scope_map http request_id context call_next w =
     (let tool_name = name (message context) in
      case authenticate decode settings now http request_id w of
        (Inl e, w1) \<Rightarrow> (Inl e, w1)
      | (Inr token_info, w1) \<Rightarrow>
          (case scope_map tool_name of
             None \<Rightarrow>
               (Inl (PermissionError
                  (''Access denied: tool '' @ quoted tool_name @ '' has no scope mapping'')),
                logger_warning ''Tool call denied: no scope mapping found''
                  [(''request_id'', JStr request_id),
                   (''subject'', subject token_info),
                   (''tool'', JStr tool_name),
                   (''decision'', JStr ''denied''),
                   (''reason'', JStr ''no_scope_mapping'')] w1)
           | Some required_scope \<Rightarrow>
               if required_scope \<notin> set (scopes token_info)
               then
                 (Inl (PermissionError
                    (''Access denied: tool '' @ quoted tool_name @ '' requires scope '' @
                     quoted required_scope)),
                  logger_warning ''Tool call denied: insufficient scope''
                    [(''request_id'', JStr request_id),
                     (''subject'', subject token_info),
                     (''tool'', JStr tool_name),
                     (''required_scope'', JStr required_scope),
                     (''token_scopes'', JList (map JStr (scopes token_info))),
                     (''decision'', JStr ''denied''),
                     (''reason'', JStr ''insufficient_scope'')] w1)
               else
                 call_next context
                   (logger_info ''Tool call authorized''
                      [(''request_id'', JStr request_id),
                       (''subject'', subject token_info),
                       (''tool'', JStr tool_name),
                       (''required_scope'', JStr required_scope),
                       (''decision'', JStr ''allowed'')] w1)))"

section \<open>The claims' vocabulary\<close>

text \<open>
  The condition under which the spec lets an invocation through: the credential
  validates, the tool name has an entry in the registry, and the required scope is
  among the granted scopes.
\<close>

definition call_allowed ::
  "jwt_decode \<Rightarrow> Settings \<Rightarrow> int \<Rightarrow> registry \<Rightarrow> string option \<Rightarrow> string \<Rightarrow> bool" where
  "call_allowed decode settings now scope_map hdr tool_name =
     (case validate_token decode settings now hdr of
        Inl e \<Rightarrow> False
      | Inr token_info \<Rightarrow>
          (case scope_map tool_name of
             None \<Rightarrow> False
           | Some required_scope \<Rightarrow> required_scope \<in> set (scopes token_info)))"





section \<open>What the decoder guarantees\<close>



section \<open>Sample inputs\<close>

text \<open>
  Concrete inputs for the examples that accompany the theorems: a decoder with a
  fixed outcome, claim sets, a request that carries a bearer header, a call request
  and a next stage that returns a fixed result.
\<close>

definition decode_returns :: "jwt_exception + payload \<Rightarrow> jwt_decode" where
  "decode_returns r = (\<lambda>token key algorithms required now. r)"

definition alice_claims :: payload where
  "alice_claims =
     [''sub'' \<mapsto> JStr ''alice'', ''scope'' \<mapsto> JList [JStr ''public:read''],
      ''exp'' \<mapsto> JNum 1738800000]"

definition admin_claims :: payload where
  "admin_claims =
     [''sub'' \<mapsto> JStr ''root'',
      ''scope'' \<mapsto> JList [JStr ''public:read'', JStr ''confidential:read''],
      ''exp'' \<mapsto> JNum 1738800000]"


definition blank_scope_claims :: payload where
  "blank_scope_claims =
     [''sub'' \<mapsto> JStr ''mallory'', ''scope'' \<mapsto> JList [JStr []],
      ''exp'' \<mapsto> JNum 1738800000]"

text \<open>A registry that maps a tool to the empty string, and a catalog built from names.\<close>

definition hidden_registry :: registry where
  "hidden_registry = [''hidden_tool'' \<mapsto> []]"

definition catalog_of :: "string list \<Rightarrow> Tool list" where
  "catalog_of names = map (\<lambda>n. \<lparr>name = n, description = []\<rparr>) names"

definition bearer_request :: "string \<Rightarrow> Request option" where
  "bearer_request token = Some \<lparr>headers = [(''authorization'', ''Bearer '' @ token)]\<rparr>"

definition call_of :: "string \<Rightarrow> CallToolRequestParams MiddlewareContext" where
  "call_of n = \<lparr>message = \<lparr>name = n, arguments = []\<rparr>\<rparr>"

definition returning :: "'r \<Rightarrow> 'c \<Rightarrow> 'a world_scheme \<Rightarrow> (exn + 'r) \<times> 'a world_scheme" where
  "returning r context w = (Inr r, w)"

section \<open>Properties of the string helpers\<close>


lemma split1_space:
  assumes "CHR '' '' \<notin> set a"
  shows "split1 (a @ CHR '' '' # b) = [a, b]"
proof -
  have p: "\<And>x. x \<in> set a \<Longrightarrow> x \<noteq> CHR '' ''" using assms by auto
  have d: "dropWhile (\<lambda>c. c \<noteq> CHR '' '') (a @ CHR '' '' # b) = CHR '' '' # b"
    using p by simp
  have t: "takeWhile (\<lambda>c. c \<noteq> CHR '' '') (a @ CHR '' '' # b) = a"
    using p by simp
  show ?thesis unfolding split1_def d t by simp
qed


lemma lower_Bearer: "lower ''Bearer'' = ''bearer''"
  by code_simp


lemma lower_bearer: "lower ''bearer'' = ''bearer''"
  by code_simp







section \<open>Properties of validate_token\<close>

lemma validate_token_bearer:
  assumes "CHR '' '' \<notin> set scheme" and "lower scheme = ''bearer''"
  shows "validate_token decode settings now (Some (scheme @ CHR '' '' # token)) =
     (case decode token (jwt_secret_key settings) [jwt_algorithm settings] [''exp'', ''sub''] now of
        Inl ExpiredSignatureError \<Rightarrow> Inl (auth_error ''Token has expired'')
      | Inl (InvalidTokenError e) \<Rightarrow> Inl (auth_error (''Invalid token: '' @ e))
      | Inl (OtherJwtException e) \<Rightarrow> Inl (OtherException e)
      | Inr payload \<Rightarrow>
          (case dict_get payload ''scope'' (JList []) of
             JList entries \<Rightarrow>
               if \<not> list_all is_JStr entries
               then Inl (auth_error ''Invalid scope claim: all entries must be strings'')
               else Inr \<lparr>subject = dict_get payload ''sub'' (JStr []),
                         scopes = map un_JStr entries\<rparr>
           | _ \<Rightarrow> Inl (auth_error ''Invalid scope claim: must be a list'')))"
  using assms
  by (simp add: validate_token_def split1_space Let_def
           split: sum.splits jwt_exception.splits)



lemma validate_alice:
  "validate_token (decode_returns (Inr alice_claims)) default_settings 0
     (get_auth_header (bearer_request ''t'')) =
   Inr \<lparr>subject = JStr ''alice'', scopes = [''public:read'']\<rparr>"
  by (simp add: validate_token_def get_auth_header_def bearer_request_def split1_def
      lower_Bearer decode_returns_def alice_claims_def dict_get_def)

section \<open>Properties of the middleware\<close>

lemma call_allowed_iff:
  "call_allowed decode settings now scope_map hdr tool_name \<longleftrightarrow>
     (\<exists>token_info required_scope.
        validate_token decode settings now hdr = Inr token_info \<and>
        scope_map tool_name = Some required_scope \<and>
        required_scope \<in> set (scopes token_info))"
  by (auto simp: call_allowed_def split: sum.splits option.splits)

lemma authenticate_fst:
  "fst (authenticate decode settings now http request_id w) =
     validate_token decode settings now (get_auth_header http)"
  by (simp add: authenticate_def Let_def split: sum.splits exn.splits)

lemma authenticate_more:
  "world.more (snd (authenticate decode settings now http request_id w)) = world.more w"
  by (simp add: authenticate_def Let_def logger_info_def logger_warning_def
           split: sum.splits exn.splits)

lemma authenticate_eq:
  "\<exists>w1. world.more w1 = world.more w \<and>
     authenticate decode settings now http request_id w =
       (validate_token decode settings now (get_auth_header http), w1)"
  using authenticate_fst[of decode settings now http request_id w]
        authenticate_more[of decode settings now http request_id w]
  by (cases "authenticate decode settings now http request_id w") auto

lemma sublist_quoted: "sublist n (a @ quoted n @ b)"
proof -
  have "a @ quoted n @ b = (a @ [CHR 0x27]) @ n @ ([CHR 0x27] @ b)"
    by (simp add: quoted_def)
  then show ?thesis using sublist_appendI by metis
qed

lemma on_call_tool_allowed:
  assumes "validate_token decode settings now (get_auth_header http) = Inr token_info"
    and "scope_map (name (message ctx)) = Some required_scope"
    and "required_scope \<in> set (scopes token_info)"
  shows "\<exists>w'. world.more w' = world.more w \<and>
           (\<forall>call_next. on_call_tool decode settings now scope_map http request_id ctx call_next w
              = call_next ctx w')"
proof -
  obtain w1 where m: "world.more w1 = world.more w"
    and a: "authenticate decode settings now http request_id w = (Inr token_info, w1)"
    using authenticate_eq[of w decode settings now http request_id] assms(1) by auto
  let ?w' = "logger_info ''Tool call authorized''
               [(''request_id'', JStr request_id),
                (''subject'', subject token_info),
                (''tool'', JStr (name (message ctx))),
                (''required_scope'', JStr required_scope),
                (''decision'', JStr ''allowed'')] w1"
  have "world.more ?w' = world.more w" using m by (simp add: logger_info_def)
  moreover have "\<forall>call_next.
      on_call_tool decode settings now scope_map http request_id ctx call_next w
        = call_next ctx ?w'"
    using a assms(2,3) by (simp add: on_call_tool_def Let_def)
  ultimately show ?thesis by blast
qed

lemma on_call_tool_no_mapping:
  assumes "validate_token decode settings now (get_auth_header http) = Inr token_info"
    and "scope_map (name (message ctx)) = None"
  shows "\<exists>w'. world.more w' = world.more w \<and>
           (\<forall>call_next. on_call_tool decode settings now scope_map http request_id ctx call_next w
              = (Inl (PermissionError
                   (''Access denied: tool '' @ quoted (name (message ctx)) @
                    '' has no scope mapping'')), w'))"
proof -
  obtain w1 where m: "world.more w1 = world.more w"
    and a: "authenticate decode settings now http request_id w = (Inr token_info, w1)"
    using authenticate_eq[of w decode settings now http request_id] assms(1) by auto
  let ?w' = "logger_warning ''Tool call denied: no scope mapping found''
               [(''request_id'', JStr request_id),
                (''subject'', subject token_info),
                (''tool'', JStr (name (message ctx))),
                (''decision'', JStr ''denied''),
                (''reason'', JStr ''no_scope_mapping'')] w1"
  have "world.more ?w' = world.more w" using m by (simp add: logger_warning_def)
  moreover have "\<forall>call_next.
      on_call_tool decode settings now scope_map http request_id ctx call_next w
        = (Inl (PermissionError
             (''Access denied: tool '' @ quoted (name (message ctx)) @
              '' has no scope mapping'')), ?w')"
    using a assms(2) by (simp add: on_call_tool_def Let_def)
  ultimately show ?thesis by blast
qed

lemma on_call_tool_insufficient:
  assumes "validate_token decode settings now (get_auth_header http) = Inr token_info"
    and "scope_map (name (message ctx)) = Some required_scope"
    and "required_scope \<notin> set (scopes token_info)"
  shows "\<exists>w'. world.more w' = world.more w \<and>
           (\<forall>call_next. on_call_tool decode settings now scope_map http request_id ctx call_next w
              = (Inl (PermissionError
                   (''Access denied: tool '' @ quoted (name (message ctx)) @
                    '' requires scope '' @ quoted required_scope)), w'))"
proof -
  obtain w1 where m: "world.more w1 = world.more w"
    and a: "authenticate decode settings now http request_id w = (Inr token_info, w1)"
    using authenticate_eq[of w decode settings now http request_id] assms(1) by auto
  let ?w' = "logger_warning ''Tool call denied: insufficient scope''
               [(''request_id'', JStr request_id),
                (''subject'', subject token_info),
                (''tool'', JStr (name (message ctx))),
                (''required_scope'', JStr required_scope),
                (''token_scopes'', JList (map JStr (scopes token_info))),
                (''decision'', JStr ''denied''),
                (''reason'', JStr ''insufficient_scope'')] w1"
  have "world.more ?w' = world.more w" using m by (simp add: logger_warning_def)
  moreover have "\<forall>call_next.
      on_call_tool decode settings now scope_map http request_id ctx call_next w
        = (Inl (PermissionError
             (''Access denied: tool '' @ quoted (name (message ctx)) @
              '' requires scope '' @ quoted required_scope)), ?w')"
    using a assms(2,3) by (simp add: on_call_tool_def Let_def)
  ultimately show ?thesis by blast
qed

lemma on_call_tool_unauthenticated:
  assumes "validate_token decode settings now (get_auth_header http) = Inl e"
  shows "\<exists>w'. world.more w' = world.more w \<and>
           (\<forall>call_next. on_call_tool decode settings now scope_map http request_id ctx call_next w
              = (Inl e, w'))"
proof -
  obtain w1 where m: "world.more w1 = world.more w"
    and a: "authenticate decode settings now http request_id w = (Inl e, w1)"
    using authenticate_eq[of w decode settings now http request_id] assms(1) by auto
  have "\<forall>call_next.
      on_call_tool decode settings now scope_map http request_id ctx call_next w
        = (Inl e, w1)"
    using a by (simp add: on_call_tool_def Let_def)
  with m show ?thesis by blast
qed

lemma on_call_tool_denied:
  assumes "\<not> call_allowed decode settings now scope_map (get_auth_header http)
               (name (message ctx))"
  shows "\<exists>e w'. world.more w' = world.more w \<and>
           (case validate_token decode settings now (get_auth_header http) of
              Inl e0 \<Rightarrow> e = e0
            | Inr token_info \<Rightarrow> is_PermissionError e) \<and>
           (\<forall>call_next. on_call_tool decode settings now scope_map http request_id ctx call_next w
              = (Inl e, w'))"
proof (cases "validate_token decode settings now (get_auth_header http)")
  case (Inl e)
  from on_call_tool_unauthenticated[OF this, where w=w and request_id=request_id
      and scope_map=scope_map]
  show ?thesis using Inl by auto
next
  case (Inr token_info)
  show ?thesis
  proof (cases "scope_map (name (message ctx))")
    case None
    from on_call_tool_no_mapping[where scope_map=scope_map and ctx=ctx and w=w and request_id=request_id, OF Inr None]
    show ?thesis using Inr by (metis is_PermissionError.simps(1) sum.simps(6))
  next
    case (Some required_scope)
    with assms Inr have "required_scope \<notin> set (scopes token_info)"
      by (auto simp: call_allowed_iff)
    from on_call_tool_insufficient[where scope_map=scope_map and ctx=ctx and w=w and request_id=request_id, OF Inr Some this]
    show ?thesis using Inr by (metis is_PermissionError.simps(1) sum.simps(6))
  qed
qed

lemma validate_admin:
  "validate_token (decode_returns (Inr admin_claims)) default_settings 0
     (get_auth_header (bearer_request ''t'')) =
   Inr \<lparr>subject = JStr ''root'', scopes = [''public:read'', ''confidential:read'']\<rparr>"
  by (simp add: validate_token_def get_auth_header_def bearer_request_def split1_def
      lower_Bearer decode_returns_def admin_claims_def dict_get_def)

lemma allowed_public:
  "call_allowed (decode_returns (Inr alice_claims)) default_settings 0 TOOL_SCOPE_MAP
     (get_auth_header (bearer_request ''t'')) (name (message (call_of ''get_public_info'')))"
  by (simp add: call_allowed_def validate_alice TOOL_SCOPE_MAP_def call_of_def)

lemma not_allowed_confidential:
  "\<not> call_allowed (decode_returns (Inr alice_claims)) default_settings 0 TOOL_SCOPE_MAP
     (get_auth_header (bearer_request ''t'')) (name (message (call_of ''get_confidential_info'')))"
  by (simp add: call_allowed_def validate_alice TOOL_SCOPE_MAP_def call_of_def)

section \<open>The invocation gate\<close>

text \<open>
  Claim C1. For every invoke-operation request, the next stage \<open>call_next\<close> is
  invoked if and only if the credential validates, the operation name has an entry
  in the scope registry and the required scope is among the credential's granted
  scopes (\<open>call_allowed\<close>). In that case the hook's outcome is exactly what
  \<open>call_next\<close> produces on the request, run after the audit records were written;
  in every other case the outcome is an error that is the same for every
  \<open>call_next\<close>, so no operation logic has run: the error of
  \<open>validate_token\<close> when validation fails, a \<open>PermissionError\<close> otherwise.
  The last conjunct is the
  equivalence itself: the outcome of the hook depends on \<open>call_next\<close> exactly when
  the call is allowed. The part of the state that belongs to the downstream stage
  (\<open>world.more\<close>) is untouched by the hook.
\<close>

theorem on_call_tool_gate:
  fixes ctx :: "'m Named_scheme MiddlewareContext" and w :: "'a world_scheme"
  shows
  "(call_allowed decode settings now scope_map (get_auth_header http) (name (message ctx)) \<longrightarrow>
      (\<exists>w'. world.more w' = world.more w \<and>
         (\<forall>call_next :: _ \<Rightarrow> _ \<Rightarrow> (exn + 'r) \<times> _.
            on_call_tool decode settings now scope_map http request_id ctx call_next w
              = call_next ctx w'))) \<and>
   (\<not> call_allowed decode settings now scope_map (get_auth_header http) (name (message ctx)) \<longrightarrow>
      (\<exists>e w'. world.more w' = world.more w \<and>
         (case validate_token decode settings now (get_auth_header http) of
            Inl e0 \<Rightarrow> e = e0
          | Inr token_info \<Rightarrow> is_PermissionError e) \<and>
         (\<forall>call_next :: _ \<Rightarrow> _ \<Rightarrow> (exn + 'r) \<times> _.
            on_call_tool decode settings now scope_map http request_id ctx call_next w
              = (Inl e, w')))) \<and>
   ((\<exists>(call_next :: _ \<Rightarrow> _ \<Rightarrow> (exn + 'r) \<times> _) call_next'.
       on_call_tool decode settings now scope_map http request_id ctx call_next w \<noteq>
       on_call_tool decode settings now scope_map http request_id ctx call_next' w)
    \<longleftrightarrow> call_allowed decode settings now scope_map (get_auth_header http) (name (message ctx)))"
proof -
  let ?hook = "\<lambda>call_next :: _ \<Rightarrow> _ \<Rightarrow> (exn + 'r) \<times> _.
     on_call_tool decode settings now scope_map http request_id ctx call_next w"
  let ?allowed =
    "call_allowed decode settings now scope_map (get_auth_header http) (name (message ctx))"
  have forward: "\<exists>w'. world.more w' = world.more w \<and>
      (\<forall>call_next. ?hook call_next = call_next ctx w')" if ?allowed
    using that on_call_tool_allowed[where scope_map=scope_map and ctx=ctx and w=w
        and request_id=request_id and decode=decode and settings=settings and now=now
        and http=http]
    unfolding call_allowed_iff by blast
  have refuse: "\<exists>e w'. world.more w' = world.more w \<and>
      (case validate_token decode settings now (get_auth_header http) of
         Inl e0 \<Rightarrow> e = e0
       | Inr token_info \<Rightarrow> is_PermissionError e) \<and>
      (\<forall>call_next. ?hook call_next = (Inl e, w'))" if "\<not> ?allowed"
    using on_call_tool_denied[OF that, where w=w and request_id=request_id] by blast
  have depends: "(\<exists>call_next call_next'. ?hook call_next \<noteq> ?hook call_next') \<longleftrightarrow> ?allowed"
  proof
    assume dep: "\<exists>call_next call_next'. ?hook call_next \<noteq> ?hook call_next'"
    show ?allowed
    proof (rule ccontr)
      assume "\<not> ?allowed"
      from refuse[OF this] dep show False by metis
    qed
  next
    assume ?allowed
    from forward[OF this] obtain w' where
      w': "\<forall>call_next. ?hook call_next = call_next ctx w'" by blast
    have "?hook (\<lambda>c u. (Inl (OtherException []), u)) \<noteq>
          ?hook (\<lambda>c u. (Inl (PermissionError []), u))"
      using w' by simp
    then show "\<exists>call_next call_next'. ?hook call_next \<noteq> ?hook call_next'" by blast
  qed
  from forward refuse depends show ?thesis by blast
qed

text \<open>
  With Alice's credential (scope \<open>public:read\<close>) and the registry of the server,
  \<open>get_public_info\<close> is forwarded and its result returned,
  \<open>get_confidential_info\<close> is refused with a \<open>PermissionError\<close>, and a request
  without HTTP context is refused with the \<open>AuthError\<close> of the validator.
\<close>

theorem on_call_tool_gate_witness:
  "call_allowed (decode_returns (Inr alice_claims)) default_settings 0 TOOL_SCOPE_MAP
     (get_auth_header (bearer_request ''t'')) (name (message (call_of ''get_public_info''))) \<and>
   fst (on_call_tool (decode_returns (Inr alice_claims)) default_settings 0 TOOL_SCOPE_MAP
          (bearer_request ''t'') ''8f14e45f'' (call_of ''get_public_info'')
          (returning ''Acme Corp'') \<lparr>logged = []\<rparr>) = Inr ''Acme Corp'' \<and>
   \<not> call_allowed (decode_returns (Inr alice_claims)) default_settings 0 TOOL_SCOPE_MAP
     (get_auth_header (bearer_request ''t''))
     (name (message (call_of ''get_confidential_info''))) \<and>
   (\<exists>e. is_PermissionError e \<and>
      fst (on_call_tool (decode_returns (Inr alice_claims)) default_settings 0 TOOL_SCOPE_MAP
             (bearer_request ''t'') ''8f14e45f'' (call_of ''get_confidential_info'')
             (returning ''Strategy'') \<lparr>logged = []\<rparr>) = Inl e) \<and>
   \<not> call_allowed (decode_returns (Inr alice_claims)) default_settings 0 TOOL_SCOPE_MAP
     (get_auth_header None) (name (message (call_of ''get_public_info''))) \<and>
   fst (on_call_tool (decode_returns (Inr alice_claims)) default_settings 0 TOOL_SCOPE_MAP
          None ''8f14e45f'' (call_of ''get_public_info'')
          (returning ''Acme Corp'') \<lparr>logged = []\<rparr>)
     = Inl (AuthError ''Missing Authorization header'' 401)"
proof -
  note a = allowed_public and n = not_allowed_confidential
  have v: "validate_token (decode_returns (Inr alice_claims)) default_settings 0
             (get_auth_header None) = Inl (AuthError ''Missing Authorization header'' 401)"
    by (simp add: validate_token_def get_auth_header_def auth_error_def)
  then have u: "\<not> call_allowed (decode_returns (Inr alice_claims)) default_settings 0
     TOOL_SCOPE_MAP (get_auth_header None) (name (message (call_of ''get_public_info'')))"
    by (simp add: call_allowed_def)
  from on_call_tool_gate[where 'r = string, of "decode_returns (Inr alice_claims)" default_settings 0
      TOOL_SCOPE_MAP "bearer_request ''t''" "call_of ''get_public_info''" "\<lparr>logged = []\<rparr>"
      "''8f14e45f''"] a
  have 1: "fst (on_call_tool (decode_returns (Inr alice_claims)) default_settings 0 TOOL_SCOPE_MAP
          (bearer_request ''t'') ''8f14e45f'' (call_of ''get_public_info'')
          (returning ''Acme Corp'') \<lparr>logged = []\<rparr>) = Inr ''Acme Corp''"
    by (auto simp: returning_def)
  from on_call_tool_gate[where 'r = string, of "decode_returns (Inr alice_claims)" default_settings 0
      TOOL_SCOPE_MAP "bearer_request ''t''" "call_of ''get_confidential_info''"
      "\<lparr>logged = []\<rparr>" "''8f14e45f''"] n
  have 2: "\<exists>e. is_PermissionError e \<and>
      fst (on_call_tool (decode_returns (Inr alice_claims)) default_settings 0 TOOL_SCOPE_MAP
             (bearer_request ''t'') ''8f14e45f'' (call_of ''get_confidential_info'')
             (returning ''Strategy'') \<lparr>logged = []\<rparr>) = Inl e"
    by (auto simp: validate_alice)
  from on_call_tool_gate[where 'r = string, of "decode_returns (Inr alice_claims)" default_settings 0
      TOOL_SCOPE_MAP None "call_of ''get_public_info''" "\<lparr>logged = []\<rparr>" "''8f14e45f''"] u
  have 3: "fst (on_call_tool (decode_returns (Inr alice_claims)) default_settings 0 TOOL_SCOPE_MAP
          None ''8f14e45f'' (call_of ''get_public_info'')
          (returning ''Acme Corp'') \<lparr>logged = []\<rparr>)
     = Inl (AuthError ''Missing Authorization header'' 401)"
    by (auto simp: v)
  from a n u 1 2 3 show ?thesis by blast
qed

text \<open>
  Claim C3. For every operation name absent from the scope registry and for every
  set of granted scopes, an authenticated invoke-operation request is denied with a
  \<open>PermissionError\<close> whose message contains the operation name, whatever the
  next stage is: \<open>call_next\<close> is never called.
\<close>

theorem on_call_tool_unmapped_denied:
  fixes ctx :: "'m Named_scheme MiddlewareContext" and w :: "'a world_scheme"
  assumes "validate_token decode settings now (get_auth_header http) = Inr token_info"
    and "scope_map (name (message ctx)) = None"
  shows "\<exists>m w'. sublist (name (message ctx)) m \<and> world.more w' = world.more w \<and>
           (\<forall>call_next :: _ \<Rightarrow> _ \<Rightarrow> (exn + 'r) \<times> _.
              on_call_tool decode settings now scope_map http request_id ctx call_next w
                = (Inl (PermissionError m), w'))"
  using on_call_tool_no_mapping[where scope_map=scope_map and ctx=ctx and w=w
      and request_id=request_id, OF assms] sublist_quoted
  by blast

text \<open>
  A credential that holds every scope the registry knows still cannot call a tool
  that the registry does not list.
\<close>

theorem on_call_tool_unmapped_denied_witness:
  "validate_token (decode_returns (Inr admin_claims)) default_settings 0
     (get_auth_header (bearer_request ''t'')) =
     Inr \<lparr>subject = JStr ''root'', scopes = [''public:read'', ''confidential:read'']\<rparr> \<and>
   TOOL_SCOPE_MAP (name (message (call_of ''delete_everything''))) = None \<and>
   (\<exists>m. sublist ''delete_everything'' m \<and>
      fst (on_call_tool (decode_returns (Inr admin_claims)) default_settings 0 TOOL_SCOPE_MAP
             (bearer_request ''t'') ''8f14e45f'' (call_of ''delete_everything'')
             (returning ''done'') \<lparr>logged = []\<rparr>) = Inl (PermissionError m))"
proof -
  have n: "TOOL_SCOPE_MAP (name (message (call_of ''delete_everything''))) = None"
    by (simp add: TOOL_SCOPE_MAP_def call_of_def)
  have c: "name (message (call_of ''delete_everything'')) = ''delete_everything''"
    by (simp add: call_of_def)
  from on_call_tool_unmapped_denied[where 'r = string and w = "\<lparr>logged = []\<rparr>"
      and request_id = "''8f14e45f''" and scope_map = TOOL_SCOPE_MAP
      and ctx = "call_of ''delete_everything''", OF validate_admin n]
  have "\<exists>m. sublist ''delete_everything'' m \<and>
      fst (on_call_tool (decode_returns (Inr admin_claims)) default_settings 0 TOOL_SCOPE_MAP
             (bearer_request ''t'') ''8f14e45f'' (call_of ''delete_everything'')
             (returning ''done'') \<lparr>logged = []\<rparr>) = Inl (PermissionError m)"
    unfolding c by (metis fst_conv)
  with validate_admin n show ?thesis by blast
qed

section \<open>Credential validation\<close>

lemma validate_sample:
  "validate_token (decode_returns r) settings now (Some (''Bearer '' @ token)) =
     (case r of
        Inl ExpiredSignatureError \<Rightarrow> Inl (auth_error ''Token has expired'')
      | Inl (InvalidTokenError e) \<Rightarrow> Inl (auth_error (''Invalid token: '' @ e))
      | Inl (OtherJwtException e) \<Rightarrow> Inl (OtherException e)
      | Inr payload \<Rightarrow>
          (case dict_get payload ''scope'' (JList []) of
             JList entries \<Rightarrow>
               if \<not> list_all is_JStr entries
               then Inl (auth_error ''Invalid scope claim: all entries must be strings'')
               else Inr \<lparr>subject = dict_get payload ''sub'' (JStr []),
                         scopes = map un_JStr entries\<rparr>
           | _ \<Rightarrow> Inl (auth_error ''Invalid scope claim: must be a list'')))"
  using validate_token_bearer[of "''Bearer''" "decode_returns r" settings now token]
  by (simp add: lower_Bearer decode_returns_def)

lemma validate_blank:
  "validate_token (decode_returns (Inr blank_scope_claims)) default_settings 0
     (get_auth_header (bearer_request ''t'')) =
   Inr \<lparr>subject = JStr ''mallory'', scopes = [[]]\<rparr>"
  by (simp add: validate_token_def get_auth_header_def bearer_request_def split1_def
      lower_Bearer decode_returns_def blank_scope_claims_def dict_get_def)

subsection \<open>Header checks\<close>




subsection \<open>Decode failures\<close>

text \<open>
  Claim C4, as the spec states it, fails: an expired token and a token with a bad
  signature give two different \<open>AuthError\<close> messages, and the second carries the
  decoder's own text.
\<close>

theorem decode_failure_counterexample:
  "validate_token (decode_returns (Inl ExpiredSignatureError)) default_settings 0
     (Some ''Bearer t'') = Inl (AuthError ''Token has expired'' 401) \<and>
   validate_token (decode_returns (Inl (InvalidTokenError ''Signature verification failed'')))
     default_settings 0 (Some ''Bearer t'') =
     Inl (AuthError ''Invalid token: Signature verification failed'' 401) \<and>
   validate_token (decode_returns (Inl ExpiredSignatureError)) default_settings 0
     (Some ''Bearer t'') \<noteq>
   validate_token (decode_returns (Inl (InvalidTokenError ''Signature verification failed'')))
     default_settings 0 (Some ''Bearer t'')"
  using validate_sample[of _ default_settings 0 "''t''"]
  by (simp add: auth_error_def)

text \<open>
  Claim C4, as amended. For a bearer header whose token the decoder rejects with
  \<open>ExpiredSignatureError\<close> or with another \<open>InvalidTokenError\<close> (bad signature,
  malformed structure, wrong algorithm, missing \<open>exp\<close> or \<open>sub\<close>),
  \<open>validate_token\<close> raises an \<open>AuthError\<close> with status 401: the message is
  \<open>Token has expired\<close> for an expired token, and \<open>Invalid token: \<close> followed by
  the decoder's text otherwise. An exception of the decoder outside
  \<open>InvalidTokenError\<close> is caught by neither handler and passes through as it is.
  In no case of a failed decode is a credential returned.
\<close>

theorem decode_failure_auth_error:
  assumes "CHR '' '' \<notin> set scheme" and "lower scheme = ''bearer''"
  shows
  "(decode token (jwt_secret_key settings) [jwt_algorithm settings] [''exp'', ''sub''] now
      = Inl ExpiredSignatureError \<longrightarrow>
    validate_token decode settings now (Some (scheme @ CHR '' '' # token))
      = Inl (AuthError ''Token has expired'' 401)) \<and>
   (\<forall>e. decode token (jwt_secret_key settings) [jwt_algorithm settings] [''exp'', ''sub''] now
      = Inl (InvalidTokenError e) \<longrightarrow>
    validate_token decode settings now (Some (scheme @ CHR '' '' # token))
      = Inl (AuthError (''Invalid token: '' @ e) 401)) \<and>
   (\<forall>e. decode token (jwt_secret_key settings) [jwt_algorithm settings] [''exp'', ''sub''] now
      = Inl (OtherJwtException e) \<longrightarrow>
    validate_token decode settings now (Some (scheme @ CHR '' '' # token))
      = Inl (OtherException e)) \<and>
   (\<forall>x. decode token (jwt_secret_key settings) [jwt_algorithm settings] [''exp'', ''sub''] now
      = Inl x \<longrightarrow>
    (\<exists>err. validate_token decode settings now (Some (scheme @ CHR '' '' # token)) = Inl err))"
  by (auto simp: validate_token_bearer[OF assms] auth_error_def split: jwt_exception.splits)

theorem decode_failure_auth_error_witness:
  "CHR '' '' \<notin> set ''bearer'' \<and> lower ''bearer'' = ''bearer'' \<and>
   validate_token (decode_returns (Inl ExpiredSignatureError)) default_settings 100
     (Some ''bearer expired.token'') = Inl (AuthError ''Token has expired'' 401) \<and>
   validate_token (decode_returns (Inl (InvalidTokenError ''Not enough segments'')))
     default_settings 100 (Some ''bearer not-a-jwt-token'')
     = Inl (AuthError ''Invalid token: Not enough segments'' 401) \<and>
   validate_token (decode_returns (Inl (OtherJwtException ''InvalidKeyError'')))
     default_settings 100 (Some ''bearer some.token'')
     = Inl (OtherException ''InvalidKeyError'')"
proof -
  have s: "CHR '' '' \<notin> set ''bearer''" by simp
  from decode_failure_auth_error[OF s lower_bearer,
      of "decode_returns (Inl ExpiredSignatureError)" "''expired.token''" default_settings 100]
  have 1: "validate_token (decode_returns (Inl ExpiredSignatureError)) default_settings 100
     (Some ''bearer expired.token'') = Inl (AuthError ''Token has expired'' 401)"
    by (simp add: decode_returns_def)
  from decode_failure_auth_error[OF s lower_bearer,
      of "decode_returns (Inl (InvalidTokenError ''Not enough segments''))"
         "''not-a-jwt-token''" default_settings 100]
  have 2: "validate_token (decode_returns (Inl (InvalidTokenError ''Not enough segments'')))
     default_settings 100 (Some ''bearer not-a-jwt-token'')
     = Inl (AuthError ''Invalid token: Not enough segments'' 401)"
    by (simp add: decode_returns_def)
  from decode_failure_auth_error[OF s lower_bearer,
      of "decode_returns (Inl (OtherJwtException ''InvalidKeyError''))"
         "''some.token''" default_settings 100]
  have 3: "validate_token (decode_returns (Inl (OtherJwtException ''InvalidKeyError'')))
     default_settings 100 (Some ''bearer some.token'')
     = Inl (OtherException ''InvalidKeyError'')"
    by (simp add: decode_returns_def)
  from s lower_bearer 1 2 3 show ?thesis by blast
qed

subsection \<open>The scope claim\<close>

text \<open>
  Claim C6. For every token that the decoder accepts: a \<open>scope\<close> claim that is
  present but not a list gives \<open>AuthError\<close> with the message
  \<open>Invalid scope claim: must be a list\<close>; a list with an entry that is not a
  string gives \<open>Invalid scope claim: all entries must be strings\<close>; and without a
  \<open>scope\<close> claim validation succeeds with an empty list of granted scopes.
\<close>

theorem scope_claim_typing:
  assumes "CHR '' '' \<notin> set scheme" and "lower scheme = ''bearer''"
    and "decode token (jwt_secret_key settings) [jwt_algorithm settings] [''exp'', ''sub''] now
           = Inr payload"
  shows
  "(\<forall>v. payload ''scope'' = Some v \<and> \<not> is_JList v \<longrightarrow>
      validate_token decode settings now (Some (scheme @ CHR '' '' # token))
        = Inl (AuthError ''Invalid scope claim: must be a list'' 401)) \<and>
   (\<forall>entries. payload ''scope'' = Some (JList entries) \<and> \<not> list_all is_JStr entries \<longrightarrow>
      validate_token decode settings now (Some (scheme @ CHR '' '' # token))
        = Inl (AuthError ''Invalid scope claim: all entries must be strings'' 401)) \<and>
   (payload ''scope'' = None \<longrightarrow>
      validate_token decode settings now (Some (scheme @ CHR '' '' # token))
        = Inr \<lparr>subject = dict_get payload ''sub'' (JStr []), scopes = []\<rparr>)"
proof (intro conjI allI impI)
  fix v assume "payload ''scope'' = Some v \<and> \<not> is_JList v"
  then show "validate_token decode settings now (Some (scheme @ CHR '' '' # token))
        = Inl (AuthError ''Invalid scope claim: must be a list'' 401)"
    using assms(3)
    by (cases v) (simp_all add: validate_token_bearer[OF assms(1,2)] auth_error_def dict_get_def)
next
  fix entries assume "payload ''scope'' = Some (JList entries) \<and> \<not> list_all is_JStr entries"
  then show "validate_token decode settings now (Some (scheme @ CHR '' '' # token))
        = Inl (AuthError ''Invalid scope claim: all entries must be strings'' 401)"
    using assms(3)
    by (simp add: validate_token_bearer[OF assms(1,2)] auth_error_def dict_get_def)
next
  assume "payload ''scope'' = None"
  then show "validate_token decode settings now (Some (scheme @ CHR '' '' # token))
        = Inr \<lparr>subject = dict_get payload ''sub'' (JStr []), scopes = []\<rparr>"
    using assms(3)
    by (simp add: validate_token_bearer[OF assms(1,2)] dict_get_def)
qed

theorem scope_claim_typing_witness:
  "CHR '' '' \<notin> set ''Bearer'' \<and> lower ''Bearer'' = ''bearer'' \<and>
   validate_token
     (decode_returns (Inr [''sub'' \<mapsto> JStr ''alice'', ''scope'' \<mapsto> JStr ''public:read'']))
     default_settings 0 (Some ''Bearer t'')
     = Inl (AuthError ''Invalid scope claim: must be a list'' 401) \<and>
   validate_token
     (decode_returns
        (Inr [''sub'' \<mapsto> JStr ''alice'', ''scope'' \<mapsto> JList [JStr ''public:read'', JNum 123]]))
     default_settings 0 (Some ''Bearer t'')
     = Inl (AuthError ''Invalid scope claim: all entries must be strings'' 401) \<and>
   validate_token (decode_returns (Inr [''sub'' \<mapsto> JStr ''alice''])) default_settings 0
     (Some ''Bearer t'')
     = Inr \<lparr>subject = JStr ''alice'', scopes = []\<rparr>"
proof -
  have s: "CHR '' '' \<notin> set ''Bearer''" by simp
  have d: "\<And>r. decode_returns (Inr r) ''t'' (jwt_secret_key default_settings)
             [jwt_algorithm default_settings] [''exp'', ''sub''] 0 = Inr r"
    by (simp add: decode_returns_def)
  from scope_claim_typing[where decode = "decode_returns (Inr [''sub'' \<mapsto> JStr ''alice'', ''scope'' \<mapsto> JStr ''public:read''])"
      and settings = default_settings and now = 0 and token = "''t''"
      and payload = "[''sub'' \<mapsto> JStr ''alice'', ''scope'' \<mapsto> JStr ''public:read'']", OF s lower_Bearer d]
  have 1: "validate_token
     (decode_returns (Inr [''sub'' \<mapsto> JStr ''alice'', ''scope'' \<mapsto> JStr ''public:read'']))
     default_settings 0 (Some ''Bearer t'')
     = Inl (AuthError ''Invalid scope claim: must be a list'' 401)"
    by simp
  from scope_claim_typing[where decode = "decode_returns (Inr [''sub'' \<mapsto> JStr ''alice'', ''scope'' \<mapsto> JList [JStr ''public:read'', JNum 123]])"
      and settings = default_settings and now = 0 and token = "''t''"
      and payload = "[''sub'' \<mapsto> JStr ''alice'', ''scope'' \<mapsto> JList [JStr ''public:read'', JNum 123]]", OF s lower_Bearer d]
  have 2: "validate_token
     (decode_returns
        (Inr [''sub'' \<mapsto> JStr ''alice'', ''scope'' \<mapsto> JList [JStr ''public:read'', JNum 123]]))
     default_settings 0 (Some ''Bearer t'')
     = Inl (AuthError ''Invalid scope claim: all entries must be strings'' 401)"
    by simp
  from scope_claim_typing[where decode = "decode_returns (Inr [''sub'' \<mapsto> JStr ''alice''])"
      and settings = default_settings and now = 0 and token = "''t''"
      and payload = "[''sub'' \<mapsto> JStr ''alice'']", OF s lower_Bearer d]
  have 3: "validate_token (decode_returns (Inr [''sub'' \<mapsto> JStr ''alice''])) default_settings 0
     (Some ''Bearer t'')
     = Inr \<lparr>subject = JStr ''alice'', scopes = []\<rparr>"
    by (simp add: dict_get_def)
  from s lower_Bearer 1 2 3 show ?thesis by blast
qed

subsection \<open>The subject\<close>




section \<open>The list filter\<close>

lemma authorized_loop_filter:
  "authorized_loop scope_map token_info tools acc =
     acc @ filter (\<lambda>tool. case scope_map (name tool) of
                             None \<Rightarrow> False
                           | Some required_scope \<Rightarrow>
                               required_scope \<noteq> [] \<and> required_scope \<in> set (scopes token_info))
                  tools"
  by (induction tools arbitrary: acc) (auto split: option.splits)

lemma on_list_tools_authenticated:
  assumes "validate_token decode settings now (get_auth_header http) = Inr token_info"
    and "call_next ctx (snd (authenticate decode settings now http request_id w))
           = (Inr catalog, w2)"
  shows "\<exists>w3. world.more w3 = world.more w2 \<and>
     on_list_tools decode settings now scope_map http request_id ctx call_next w =
       (Inr (filter (\<lambda>tool. case scope_map (name tool) of
                             None \<Rightarrow> False
                           | Some required_scope \<Rightarrow>
                               required_scope \<noteq> [] \<and> required_scope \<in> set (scopes token_info))
                  catalog), w3)"
proof -
  obtain w1 where a: "authenticate decode settings now http request_id w = (Inr token_info, w1)"
    using authenticate_eq[of w decode settings now http request_id] assms(1) by auto
  with assms(2) have c: "call_next ctx w1 = (Inr catalog, w2)" by simp
  show ?thesis
    using a c
    by (simp add: on_list_tools_def Let_def authorized_loop_filter logger_info_def)
qed

lemma on_list_tools_Inr:
  assumes "on_list_tools decode settings now scope_map http request_id ctx call_next w
             = (Inr ts, w')"
  shows "\<exists>token_info catalog w2.
     validate_token decode settings now (get_auth_header http) = Inr token_info \<and>
     call_next ctx (snd (authenticate decode settings now http request_id w))
       = (Inr catalog, w2) \<and>
     ts = filter (\<lambda>tool. case scope_map (name tool) of
                             None \<Rightarrow> False
                           | Some required_scope \<Rightarrow>
                               required_scope \<noteq> [] \<and> required_scope \<in> set (scopes token_info))
                  catalog"
proof -
  obtain r w1 where a: "authenticate decode settings now http request_id w = (r, w1)"
    by (cases "authenticate decode settings now http request_id w")
  from assms a obtain token_info where r: "r = Inr token_info"
    by (cases r) (auto simp: on_list_tools_def)
  have v: "validate_token decode settings now (get_auth_header http) = Inr token_info"
    using authenticate_fst[of decode settings now http request_id w] a r by simp
  obtain r2 w2 where c: "call_next ctx w1 = (r2, w2)" by (cases "call_next ctx w1")
  from assms a r c obtain catalog where r2: "r2 = Inr catalog"
    by (cases r2) (auto simp: on_list_tools_def)
  have c': "call_next ctx (snd (authenticate decode settings now http request_id w))
       = (Inr catalog, w2)" using a c r2 by simp
  from on_list_tools_authenticated[where scope_map=scope_map and call_next=call_next and ctx=ctx, OF v c'] assms
  show ?thesis using v c' by auto
qed

lemma count_list_filter_le: "count_list (filter P xs) x \<le> count_list xs x"
  by (induction xs) auto

lemma list_alice:
  "on_list_tools (decode_returns (Inr alice_claims)) default_settings 0 TOOL_SCOPE_MAP
     (bearer_request ''t'') ''8f14e45f'' ()
     (returning (catalog_of [''get_public_info'', ''get_confidential_info'', ''debug_dump'']))
     \<lparr>logged = []\<rparr>
   = (Inr (catalog_of [''get_public_info'']),
      \<lparr>logged =
         [\<lparr>levelname = ''INFO'', msg = ''Authentication successful'',
           auth_data = [(''request_id'', JStr ''8f14e45f''), (''subject'', JStr ''alice''),
                        (''scopes'', JList [JStr ''public:read'']),
                        (''decision'', JStr ''authenticated'')]\<rparr>,
          \<lparr>levelname = ''INFO'', msg = ''Tool list filtered by scope'',
           auth_data = [(''request_id'', JStr ''8f14e45f''), (''subject'', JStr ''alice''),
                        (''scopes'', JList [JStr ''public:read'']), (''total_tools'', JNum 3),
                        (''authorized_tools'', JList [JStr ''get_public_info'']),
                        (''decision'', JStr ''filtered'')]\<rparr>]\<rparr>)"
  by (simp add: validate_alice TOOL_SCOPE_MAP_def on_list_tools_def authenticate_def
      returning_def logger_info_def catalog_of_def)

lemma list_hidden:
  "on_list_tools (decode_returns (Inr blank_scope_claims)) default_settings 0 hidden_registry
     (bearer_request ''t'') ''8f14e45f'' ()
     (returning [\<lparr>name = ''hidden_tool'', description = []\<rparr>]) \<lparr>logged = []\<rparr>
   = (Inr [],
      \<lparr>logged =
         [\<lparr>levelname = ''INFO'', msg = ''Authentication successful'',
           auth_data = [(''request_id'', JStr ''8f14e45f''), (''subject'', JStr ''mallory''),
                        (''scopes'', JList [JStr []]), (''decision'', JStr ''authenticated'')]\<rparr>,
          \<lparr>levelname = ''INFO'', msg = ''Tool list filtered by scope'',
           auth_data = [(''request_id'', JStr ''8f14e45f''), (''subject'', JStr ''mallory''),
                        (''scopes'', JList [JStr []]), (''total_tools'', JNum 1),
                        (''authorized_tools'', JList []), (''decision'', JStr ''filtered'')]\<rparr>]\<rparr>)"
  by (simp add: validate_blank hidden_registry_def on_list_tools_def authenticate_def
      returning_def logger_info_def)

text \<open>
  Claim C2. For every list-operations request with a validated credential, a tool
  of the unfiltered catalog is in the returned list if and only if the scope
  registry \<open>TOOL_SCOPE_MAP\<close> has a required scope for its name and that scope is
  among the credential's granted scopes; a tool without registry entry is always
  excluded, and with no granted scope the returned list is empty.
\<close>

theorem on_list_tools_filter:
  assumes "validate_token decode settings now (get_auth_header http) = Inr token_info"
    and "call_next ctx (snd (authenticate decode settings now http request_id w))
           = (Inr catalog, w2)"
  shows "\<exists>ts w3.
     on_list_tools decode settings now TOOL_SCOPE_MAP http request_id ctx call_next w
       = (Inr ts, w3) \<and>
     (\<forall>tool. tool \<in> set ts \<longleftrightarrow>
        tool \<in> set catalog \<and>
        (\<exists>required_scope. TOOL_SCOPE_MAP (name tool) = Some required_scope \<and>
           required_scope \<in> set (scopes token_info))) \<and>
     (\<forall>tool. TOOL_SCOPE_MAP (name tool) = None \<longrightarrow> tool \<notin> set ts) \<and>
     (scopes token_info = [] \<longrightarrow> ts = [])"
proof -
  let ?P = "\<lambda>tool. case TOOL_SCOPE_MAP (name tool) of
                     None \<Rightarrow> False
                   | Some required_scope \<Rightarrow>
                       required_scope \<noteq> [] \<and> required_scope \<in> set (scopes token_info)"
  have ne: "\<And>n r. TOOL_SCOPE_MAP n = Some r \<Longrightarrow> r \<noteq> []"
    by (auto simp: TOOL_SCOPE_MAP_def split: if_splits)
  from on_list_tools_authenticated[where scope_map=TOOL_SCOPE_MAP and call_next=call_next
      and ctx=ctx, OF assms]
  obtain w3 where
    r: "on_list_tools decode settings now TOOL_SCOPE_MAP http request_id ctx call_next w
          = (Inr (filter ?P catalog), w3)"
    by blast
  have m: "\<forall>tool. tool \<in> set (filter ?P catalog) \<longleftrightarrow>
        tool \<in> set catalog \<and>
        (\<exists>required_scope. TOOL_SCOPE_MAP (name tool) = Some required_scope \<and>
           required_scope \<in> set (scopes token_info))"
    using ne by (auto split: option.splits)
  have n: "\<forall>tool. TOOL_SCOPE_MAP (name tool) = None \<longrightarrow> tool \<notin> set (filter ?P catalog)"
    by simp
  have e: "scopes token_info = [] \<longrightarrow> filter ?P catalog = []"
    by (auto simp: filter_empty_conv split: option.splits)
  from r m n e show ?thesis by blast
qed

text \<open>
  Alice, who holds \<open>public:read\<close>, sees \<open>get_public_info\<close> only.
\<close>

theorem on_list_tools_filter_witness:
  "validate_token (decode_returns (Inr alice_claims)) default_settings 0
     (get_auth_header (bearer_request ''t'')) =
     Inr \<lparr>subject = JStr ''alice'', scopes = [''public:read'']\<rparr> \<and>
   (\<exists>ts w3.
      on_list_tools (decode_returns (Inr alice_claims)) default_settings 0 TOOL_SCOPE_MAP
        (bearer_request ''t'') ''8f14e45f'' ()
        (returning (catalog_of [''get_public_info'', ''get_confidential_info'', ''debug_dump'']))
        \<lparr>logged = []\<rparr> = (Inr ts, w3) \<and>
      ts = catalog_of [''get_public_info''] \<and>
      (\<forall>tool. tool \<in> set ts \<longleftrightarrow>
         tool \<in> set (catalog_of [''get_public_info'', ''get_confidential_info'', ''debug_dump'']) \<and>
         (\<exists>required_scope. TOOL_SCOPE_MAP (name tool) = Some required_scope \<and>
            required_scope \<in> set (scopes \<lparr>subject = JStr ''alice'', scopes = [''public:read'']\<rparr>))))"
proof -
  let ?cat = "catalog_of [''get_public_info'', ''get_confidential_info'', ''debug_dump'']"
  have c: "returning ?cat ()
       (snd (authenticate (decode_returns (Inr alice_claims)) default_settings 0
               (bearer_request ''t'') ''8f14e45f'' \<lparr>logged = []\<rparr>))
     = (Inr ?cat, snd (authenticate (decode_returns (Inr alice_claims)) default_settings 0
               (bearer_request ''t'') ''8f14e45f'' \<lparr>logged = []\<rparr>))"
    by (simp add: returning_def)
  from on_list_tools_filter[where call_next = "returning ?cat" and ctx = "()",
      OF validate_alice c]
  show ?thesis using validate_alice list_alice by auto
qed

text \<open>
  Claim C10. The list-filtering hook never fabricates or modifies operations:
  whenever it returns a list, the next stage returned a catalog and the list is a
  subsequence of it, so every returned element is an element of the catalog, the
  order is kept, and no element occurs more often than in the catalog.
\<close>

theorem on_list_tools_subseq:
  assumes "on_list_tools decode settings now scope_map http request_id ctx call_next w
             = (Inr ts, w')"
  shows "\<exists>catalog w1 w2. call_next ctx w1 = (Inr catalog, w2) \<and> subseq ts catalog \<and>
           (\<forall>tool. count_list ts tool \<le> count_list catalog tool)"
proof -
  from on_list_tools_Inr[OF assms] obtain token_info :: TokenInfo and catalog w2 where
    c: "call_next ctx (snd (authenticate decode settings now http request_id w))
          = (Inr catalog, w2)"
    and t: "ts = filter (\<lambda>tool. case scope_map (name tool) of
                             None \<Rightarrow> False
                           | Some required_scope \<Rightarrow>
                               required_scope \<noteq> [] \<and> required_scope \<in> set (scopes token_info))
                  catalog"
    by blast
  have "subseq ts catalog" unfolding t by simp
  moreover have "\<forall>tool. count_list ts tool \<le> count_list catalog tool"
    unfolding t by (simp add: count_list_filter_le)
  ultimately show ?thesis using c by blast
qed

theorem on_list_tools_subseq_witness:
  "on_list_tools (decode_returns (Inr alice_claims)) default_settings 0 TOOL_SCOPE_MAP
     (bearer_request ''t'') ''8f14e45f'' ()
     (returning (catalog_of [''get_public_info'', ''get_confidential_info'', ''debug_dump'']))
     \<lparr>logged = []\<rparr>
   = (Inr (catalog_of [''get_public_info'']),
      \<lparr>logged =
         [\<lparr>levelname = ''INFO'', msg = ''Authentication successful'',
           auth_data = [(''request_id'', JStr ''8f14e45f''), (''subject'', JStr ''alice''),
                        (''scopes'', JList [JStr ''public:read'']),
                        (''decision'', JStr ''authenticated'')]\<rparr>,
          \<lparr>levelname = ''INFO'', msg = ''Tool list filtered by scope'',
           auth_data = [(''request_id'', JStr ''8f14e45f''), (''subject'', JStr ''alice''),
                        (''scopes'', JList [JStr ''public:read'']), (''total_tools'', JNum 3),
                        (''authorized_tools'', JList [JStr ''get_public_info'']),
                        (''decision'', JStr ''filtered'')]\<rparr>]\<rparr>) \<and>
   subseq (catalog_of [''get_public_info''])
     (catalog_of [''get_public_info'', ''get_confidential_info'', ''debug_dump''])"
proof -
  from on_list_tools_subseq[OF list_alice]
  have "subseq (catalog_of [''get_public_info''])
     (catalog_of [''get_public_info'', ''get_confidential_info'', ''debug_dump''])"
    by (auto simp: returning_def)
  with list_alice show ?thesis by blast
qed

section \<open>Empty required scope\<close>

text \<open>
  Claim C9. The two hooks treat a registry entry that is the empty string
  differently. The list hook tests the truthiness of the required scope, so it
  never lists such a tool, whatever the credential is. The invoke hook tests the
  entry against \<open>None\<close> only, so it forwards the call for every credential whose
  granted scopes contain the empty string. Hence there is a registry, a decoder
  and a request for which a tool appears in no returned list and yet every call
  of it is forwarded.
\<close>

theorem empty_scope_asymmetry:
  fixes call_ctx :: "'m Named_scheme MiddlewareContext" and w :: "'a world_scheme"
    and tool :: "'t Named_scheme"
    and list_next :: "'c \<Rightarrow> 'a world_scheme \<Rightarrow> (exn + 't Named_scheme list) \<times> 'a world_scheme"
  shows
  "(scope_map (name tool) = Some [] \<and>
    on_list_tools decode settings now scope_map http request_id list_ctx list_next w = (Inr ts, w')
      \<longrightarrow> tool \<notin> set ts) \<and>
   (validate_token decode settings now (get_auth_header http) = Inr token_info \<and>
    scope_map (name (message call_ctx)) = Some [] \<and> [] \<in> set (scopes token_info)
      \<longrightarrow> (\<exists>u. \<forall>call_next :: _ \<Rightarrow> _ \<Rightarrow> (exn + 'r) \<times> _.
             on_call_tool decode settings now scope_map http request_id call_ctx call_next w
               = call_next call_ctx u)) \<and>
   (\<exists>registry decoder request.
      (\<forall>(next_stage :: unit \<Rightarrow> world \<Rightarrow> (exn + Tool list) \<times> world) rid v listed v'.
         on_list_tools decoder default_settings 0 registry request rid () next_stage v
           = (Inr listed, v')
         \<longrightarrow> \<lparr>name = ''hidden_tool'', description = []\<rparr> \<notin> set listed) \<and>
      (\<forall>rid (v :: world). \<exists>u. \<forall>call_next :: _ \<Rightarrow> _ \<Rightarrow> (exn + string) \<times> _.
         on_call_tool decoder default_settings 0 registry request rid (call_of ''hidden_tool'')
           call_next v = call_next (call_of ''hidden_tool'') u))"
proof (intro conjI impI)
  assume a: "scope_map (name tool) = Some [] \<and>
    on_list_tools decode settings now scope_map http request_id list_ctx list_next w = (Inr ts, w')"
  then have "on_list_tools decode settings now scope_map http request_id list_ctx list_next w
     = (Inr ts, w')" by simp
  from on_list_tools_Inr[OF this] a show "tool \<notin> set ts" by auto
next
  assume a: "validate_token decode settings now (get_auth_header http) = Inr token_info \<and>
    scope_map (name (message call_ctx)) = Some [] \<and> [] \<in> set (scopes token_info)"
  then have 1: "validate_token decode settings now (get_auth_header http) = Inr token_info"
    and 2: "scope_map (name (message call_ctx)) = Some []"
    and 3: "[] \<in> set (scopes token_info)" by simp_all
  from on_call_tool_allowed[where scope_map=scope_map and ctx=call_ctx and w=w
      and request_id=request_id, OF 1 2 3]
  show "\<exists>u. \<forall>call_next :: _ \<Rightarrow> _ \<Rightarrow> (exn + 'r) \<times> _.
             on_call_tool decode settings now scope_map http request_id call_ctx call_next w
               = call_next call_ctx u" by blast
next
  let ?D = "decode_returns (Inr blank_scope_claims)"
  have l: "\<forall>(next_stage :: unit \<Rightarrow> world \<Rightarrow> (exn + Tool list) \<times> world) rid v listed v'.
         on_list_tools ?D default_settings 0 hidden_registry (bearer_request ''t'') rid ()
           next_stage v = (Inr listed, v')
         \<longrightarrow> \<lparr>name = ''hidden_tool'', description = []\<rparr> \<notin> set listed"
  proof (intro allI impI)
    fix next_stage :: "unit \<Rightarrow> world \<Rightarrow> (exn + Tool list) \<times> world"
    fix rid v listed v'
    assume "on_list_tools ?D default_settings 0 hidden_registry (bearer_request ''t'') rid ()
           next_stage v = (Inr listed, v')"
    from on_list_tools_Inr[OF this]
    show "\<lparr>name = ''hidden_tool'', description = []\<rparr> \<notin> set listed"
      by (auto simp: hidden_registry_def)
  qed
  have n: "hidden_registry (name (message (call_of ''hidden_tool''))) = Some []"
    by (simp add: hidden_registry_def call_of_def)
  have s: "[] \<in> set (scopes \<lparr>subject = JStr ''mallory'', scopes = [[]]\<rparr>)" by simp
  have c: "\<forall>rid (v :: world). \<exists>u. \<forall>call_next :: _ \<Rightarrow> _ \<Rightarrow> (exn + string) \<times> _.
         on_call_tool ?D default_settings 0 hidden_registry (bearer_request ''t'') rid
           (call_of ''hidden_tool'') call_next v = call_next (call_of ''hidden_tool'') u"
  proof (intro allI)
    fix rid and v :: world
    from on_call_tool_allowed[where scope_map=hidden_registry and ctx="call_of ''hidden_tool''"
        and w=v and request_id=rid, OF validate_blank n s]
    show "\<exists>u. \<forall>call_next :: _ \<Rightarrow> _ \<Rightarrow> (exn + string) \<times> _.
         on_call_tool ?D default_settings 0 hidden_registry (bearer_request ''t'') rid
           (call_of ''hidden_tool'') call_next v = call_next (call_of ''hidden_tool'') u"
      by blast
  qed
  from l c show "\<exists>registry decoder request.
      (\<forall>(next_stage :: unit \<Rightarrow> world \<Rightarrow> (exn + Tool list) \<times> world) rid v listed v'.
         on_list_tools decoder default_settings 0 registry request rid () next_stage v
           = (Inr listed, v')
         \<longrightarrow> \<lparr>name = ''hidden_tool'', description = []\<rparr> \<notin> set listed) \<and>
      (\<forall>rid (v :: world). \<exists>u. \<forall>call_next :: _ \<Rightarrow> _ \<Rightarrow> (exn + string) \<times> _.
         on_call_tool decoder default_settings 0 registry request rid (call_of ''hidden_tool'')
           call_next v = call_next (call_of ''hidden_tool'') u)"
    by blast
qed

text \<open>
  With \<open>hidden_registry\<close> and a credential that holds the empty scope,
  \<open>hidden_tool\<close> is filtered out of the list and its call returns the tool's result.
\<close>

theorem empty_scope_asymmetry_witness:
  "hidden_registry (name \<lparr>name = ''hidden_tool'', description = []\<rparr>) = Some [] \<and>
   fst (on_list_tools (decode_returns (Inr blank_scope_claims)) default_settings 0
          hidden_registry (bearer_request ''t'') ''8f14e45f'' ()
          (returning [\<lparr>name = ''hidden_tool'', description = []\<rparr>]) \<lparr>logged = []\<rparr>)
     = Inr [] \<and>
   validate_token (decode_returns (Inr blank_scope_claims)) default_settings 0
     (get_auth_header (bearer_request ''t'')) =
     Inr \<lparr>subject = JStr ''mallory'', scopes = [[]]\<rparr> \<and>
   hidden_registry (name (message (call_of ''hidden_tool''))) = Some [] \<and>
   fst (on_call_tool (decode_returns (Inr blank_scope_claims)) default_settings 0
          hidden_registry (bearer_request ''t'') ''8f14e45f'' (call_of ''hidden_tool'')
          (returning ''Strategy'') \<lparr>logged = []\<rparr>) = Inr ''Strategy''"
proof -
  have r: "hidden_registry (name \<lparr>name = ''hidden_tool'', description = []\<rparr>) = Some []"
    by (simp add: hidden_registry_def)
  have n: "hidden_registry (name (message (call_of ''hidden_tool''))) = Some []"
    by (simp add: hidden_registry_def call_of_def)
  have s: "[] \<in> set (scopes \<lparr>subject = JStr ''mallory'', scopes = [[]]\<rparr>)" by simp
  from empty_scope_asymmetry[where 'r = string and scope_map = hidden_registry
      and decode = "decode_returns (Inr blank_scope_claims)" and settings = default_settings
      and now = 0 and http = "bearer_request ''t''" and request_id = "''8f14e45f''"
      and call_ctx = "call_of ''hidden_tool''" and w = "\<lparr>logged = []\<rparr>"
      and token_info = "\<lparr>subject = JStr ''mallory'', scopes = [[]]\<rparr>"
      and tool = "\<lparr>name = ''hidden_tool'', description = []\<rparr>"
      and list_ctx = "()" and ts = "[]" and w' = "\<lparr>logged = []\<rparr>"
      and list_next = "returning [\<lparr>name = ''hidden_tool'', description = []\<rparr>]"]
    validate_blank n s
  obtain u where "\<forall>call_next :: _ \<Rightarrow> _ \<Rightarrow> (exn + string) \<times> _.
      on_call_tool (decode_returns (Inr blank_scope_claims)) default_settings 0
        hidden_registry (bearer_request ''t'') ''8f14e45f'' (call_of ''hidden_tool'')
        call_next \<lparr>logged = []\<rparr> = call_next (call_of ''hidden_tool'') u"
    by blast
  then have c: "fst (on_call_tool (decode_returns (Inr blank_scope_claims)) default_settings 0
          hidden_registry (bearer_request ''t'') ''8f14e45f'' (call_of ''hidden_tool'')
          (returning ''Strategy'') \<lparr>logged = []\<rparr>) = Inr ''Strategy''"
    by (simp add: returning_def)
  from r n c validate_blank list_hidden show ?thesis by simp
qed

section \<open>Determinism of the decision\<close>

text \<open>
  Claim C8. The decoder stands for \<open>jwt.decode\<close> with the process secret, the
  algorithm and the evaluation time as arguments, so the outcome of validation is a
  function of the header, the settings, the time and the decoder: the outcome of
  \<open>authenticate\<close> is \<open>validate_token\<close> of the header whatever the request id and
  the logger state are. Two runs of the invoke hook with the same inputs, and with
  any two request ids and any two states, take the same decision: either both
  raise the same error, or both forward the call to the next stage.
\<close>

theorem decision_deterministic:
  fixes ctx :: "'m Named_scheme MiddlewareContext"
    and w :: "'a world_scheme" and w' :: "'a world_scheme"
  shows
  "fst (authenticate decode settings now http request_id w)
     = validate_token decode settings now (get_auth_header http) \<and>
   fst (authenticate decode settings now http request_id' w')
     = validate_token decode settings now (get_auth_header http) \<and>
   ((\<exists>e. \<forall>call_next :: _ \<Rightarrow> _ \<Rightarrow> (exn + 'r) \<times> _.
        fst (on_call_tool decode settings now scope_map http request_id ctx call_next w) = Inl e \<and>
        fst (on_call_tool decode settings now scope_map http request_id' ctx call_next w') = Inl e)
    \<or>
    (\<exists>u1 u2. \<forall>call_next :: _ \<Rightarrow> _ \<Rightarrow> (exn + 'r) \<times> _.
        on_call_tool decode settings now scope_map http request_id ctx call_next w
          = call_next ctx u1 \<and>
        on_call_tool decode settings now scope_map http request_id' ctx call_next w'
          = call_next ctx u2))"
proof -
  let ?run1 = "\<lambda>call_next :: _ \<Rightarrow> _ \<Rightarrow> (exn + 'r) \<times> _.
     on_call_tool decode settings now scope_map http request_id ctx call_next w"
  let ?run2 = "\<lambda>call_next :: _ \<Rightarrow> _ \<Rightarrow> (exn + 'r) \<times> _.
     on_call_tool decode settings now scope_map http request_id' ctx call_next w'"
  have gate: "(\<exists>e. \<forall>call_next. fst (?run1 call_next) = Inl e \<and> fst (?run2 call_next) = Inl e) \<or>
              (\<exists>u1 u2. \<forall>call_next. ?run1 call_next = call_next ctx u1 \<and>
                                  ?run2 call_next = call_next ctx u2)"
  proof (cases "validate_token decode settings now (get_auth_header http)")
    case (Inl e)
    from on_call_tool_unauthenticated[OF Inl, where w=w and request_id=request_id
        and scope_map=scope_map and ctx=ctx]
      on_call_tool_unauthenticated[OF Inl, where w=w' and request_id=request_id'
        and scope_map=scope_map and ctx=ctx]
    have "\<forall>call_next. fst (?run1 call_next) = Inl e \<and> fst (?run2 call_next) = Inl e"
      by (metis fst_conv)
    then show ?thesis by blast
  next
    case (Inr token_info)
    show ?thesis
    proof (cases "scope_map (name (message ctx))")
      case None
      let ?e = "PermissionError (''Access denied: tool '' @ quoted (name (message ctx)) @
                    '' has no scope mapping'')"
      from on_call_tool_no_mapping[where scope_map=scope_map and ctx=ctx and w=w
          and request_id=request_id, OF Inr None]
        on_call_tool_no_mapping[where scope_map=scope_map and ctx=ctx and w=w'
          and request_id=request_id', OF Inr None]
      have "\<forall>call_next. fst (?run1 call_next) = Inl ?e \<and> fst (?run2 call_next) = Inl ?e"
        by (metis fst_conv)
      then show ?thesis by blast
    next
      case (Some required_scope)
      show ?thesis
      proof (cases "required_scope \<in> set (scopes token_info)")
        case True
        from on_call_tool_allowed[where scope_map=scope_map and ctx=ctx and w=w
            and request_id=request_id, OF Inr Some True]
          on_call_tool_allowed[where scope_map=scope_map and ctx=ctx and w=w'
            and request_id=request_id', OF Inr Some True]
        show ?thesis by blast
      next
        case False
        let ?e = "PermissionError (''Access denied: tool '' @ quoted (name (message ctx)) @
                    '' requires scope '' @ quoted required_scope)"
        from on_call_tool_insufficient[where scope_map=scope_map and ctx=ctx and w=w
            and request_id=request_id, OF Inr Some False]
          on_call_tool_insufficient[where scope_map=scope_map and ctx=ctx and w=w'
            and request_id=request_id', OF Inr Some False]
        have "\<forall>call_next. fst (?run1 call_next) = Inl ?e \<and> fst (?run2 call_next) = Inl ?e"
          by (metis fst_conv)
        then show ?thesis by blast
      qed
    qed
  qed
  with authenticate_fst show ?thesis by blast
qed

text \<open>
  Two calls of \<open>get_public_info\<close> with different request ids, the second after the
  logger has received a record, return the same result.
\<close>

theorem decision_deterministic_witness:
  "fst (on_call_tool (decode_returns (Inr alice_claims)) default_settings 0 TOOL_SCOPE_MAP
          (bearer_request ''t'') ''aaaa1111'' (call_of ''get_public_info'')
          (returning ''Acme Corp'') \<lparr>logged = []\<rparr>) =
   fst (on_call_tool (decode_returns (Inr alice_claims)) default_settings 0 TOOL_SCOPE_MAP
          (bearer_request ''t'') ''bbbb2222'' (call_of ''get_public_info'')
          (returning ''Acme Corp'')
          \<lparr>logged = [\<lparr>levelname = ''INFO'', msg = ''Tool executed: get_public_info'',
                       auth_data = []\<rparr>]\<rparr>)"
  using decision_deterministic[where 'r = string and decode = "decode_returns (Inr alice_claims)"
      and settings = default_settings and now = 0 and scope_map = TOOL_SCOPE_MAP
      and http = "bearer_request ''t''" and ctx = "call_of ''get_public_info''"
      and request_id = "''aaaa1111''" and request_id' = "''bbbb2222''"
      and w = "\<lparr>logged = []\<rparr>"
      and w' = "\<lparr>logged = [\<lparr>levelname = ''INFO'', msg = ''Tool executed: get_public_info'',
                       auth_data = []\<rparr>]\<rparr>"]
  by (auto simp: returning_def)

end
